theory Spec2Isabelle
  imports Main
begin

section \<open>Data model\<close>

text \<open>
  The transaction watcher (class \<open>Web3Event\<close>) reads blocks from an Ethereum node,
  keeps the transactions that touch a known wallet and mirrors them in the local
  transaction repository. The model follows the source function by function. What the
  class only calls (the web3 node, the ABI coder, the user repository, the
  configuration) is gathered in the record \<open>Deps\<close> and left arbitrary; the unit
  conversion of web3-utils is written out.
\<close>

text \<open>The three status constants and the two type constants of the transaction entity.\<close>

datatype TxStatus =
  TRANSACTION_STATUS_PENDING | TRANSACTION_STATUS_CONFIRMED | TRANSACTION_STATUS_FAILED

datatype TxType = ETHEREUM_TRANSFER | ERC20_TRANSFER

text \<open>The end of a call that may throw: it throws, or it returns a value.\<close>

datatype 'a outcome = Throws | Returns 'a

text \<open>
  A transaction as web3 delivers it inside a block, and the source's \<open>ExtEthTransaction\<close>,
  which adds \<open>contractAddress\<close>. \<open>t_to\<close> is \<open>None\<close> for JavaScript's \<open>null\<close>
  (a contract creation), \<open>t_contractAddress\<close> is \<open>None\<close> for \<open>undefined\<close>. The value is the
  decimal string web3 gives.
\<close>

record EthTransaction =
  t_hash :: string
  t_from :: string
  t_to :: "string option"
  t_value :: string
  t_input :: string
  t_gas :: nat
  t_gasPrice :: string

record ExtEthTransaction = EthTransaction +
  t_contractAddress :: "string option"

record Block =
  b_number :: nat
  b_timestamp :: nat
  b_transactions :: "EthTransaction list"

record Log =
  l_data :: string
  l_topics :: "string list"

record Receipt =
  r_status :: string
  r_logs :: "Log list"

text \<open>
  The object that \<open>decodeLog\<close> returns for the inputs of the Transfer event: the fields
  \<open>_from\<close> and \<open>_to\<close>, \<open>None\<close> when the property is undefined.
\<close>

record DecodedLog =
  d_from :: "string option"
  d_to :: "string option"

text \<open>The \<open>details\<close> of a stored transaction: the object that the source serialises.\<close>

record TxDetails =
  d_gas :: nat
  d_gasPrice :: string

text \<open>
  The persisted transaction entity. A field that the entity may lack (\<open>undefined\<close>, or
  removed by \<open>delete\<close>) is an option.
\<close>

record Transaction =
  transactionHash :: string
  details :: TxDetails
  status :: "TxStatus option"
  tx_type :: "TxType option"
  tx_from :: "string option"
  tx_to :: "string option"
  amount :: "string option"
  contractAddress :: "string option"
  blockNumber :: "nat option"
  timestamp :: "nat option"

record Wallet =
  w_address :: string
  w_ticker :: string

record User =
  u_email :: string
  u_wallets :: "Wallet list"

text \<open>
  \<open>WalletsMap\<close> is a JavaScript object from address to wallets; keys keep their insertion
  order, so it is an association list with one entry per key.
\<close>

type_synonym WalletsMap = "(string \<times> Wallet list) list"

type_synonym Store = "Transaction list"

text \<open>
  The collaborators of \<open>Web3Event\<close>: the two method signatures computed in the constructor,
  the ABI coder applied to the configured inputs of \<open>transfer\<close>, of \<open>transferFrom\<close> and of
  the \<open>Transfer\<close> event, the node (\<open>getTransactionReceipt\<close>, \<open>getBlock\<close>,
  \<open>getBlockNumber\<close>), the user repository and \<open>config.web3.startBlock\<close>.
  \<open>decodeLog\<close> is called inside \<open>processTransaction\<close> and nothing catches what it throws: it returns an
  object or nothing, or it throws. The other collaborators answer: a request to the node
  that is rejected is not part of the model. The node is the same during one sweep;
  another sweep has its own \<open>Deps\<close>.
\<close>

record Deps =
  transfer_methodSignature :: string
  transferFrom_methodSignature :: string
  decodeTransferArgs :: "string \<Rightarrow> string \<times> string"
  decodeTransferFromArgs :: "string \<Rightarrow> string \<times> string \<times> string"
  decodeLog :: "Log \<Rightarrow> DecodedLog option outcome"
  getTransactionReceipt :: "string \<Rightarrow> Receipt option"
  getBlock :: "int \<Rightarrow> Block option"
  getBlockNumber :: nat
  getAllByWalletAddresses :: "string list \<Rightarrow> User list"
  startBlock :: int

section \<open>JavaScript primitives\<close>

text \<open>\<open>s.slice(a, b)\<close> on a string, for \<open>0 \<le> a \<le> b\<close>.\<close>

definition slice :: "nat \<Rightarrow> nat \<Rightarrow> string \<Rightarrow> string" where
  "slice a b s = take (b - a) (drop a s)"

text \<open>Truthiness of a string, and of a property that is a string or undefined/null.\<close>

definition truthy :: "string \<Rightarrow> bool" where
  "truthy s = (s \<noteq> [])"

definition truthy_opt :: "string option \<Rightarrow> bool" where
  "truthy_opt v = (case v of None \<Rightarrow> False | Some s \<Rightarrow> truthy s)"

text \<open>The property key that JavaScript makes of a string or of \<open>null\<close>.\<close>

definition js_key :: "string option \<Rightarrow> string" where
  "js_key v = (case v of None \<Rightarrow> ''null'' | Some s \<Rightarrow> s)"

section \<open>Unit conversion\<close>

text \<open>
  \<open>Web3Utils.fromWei\<close> on the decimal numeral that web3 delivers, for a unit of \<open>10 ^ n\<close>
  wei (\<open>n = 18\<close> for ether, the default, and \<open>n = 9\<close> for gwei). web3-utils is a library
  and not part of the sources at hand; this is what its \<open>fromWei\<close> computes: the number is
  divided by the unit, the fraction is written with \<open>n\<close> digits and loses its zeros at the
  end, and a fraction of zero is left out together with the point.
\<close>

definition fromWei :: "nat \<Rightarrow> string \<Rightarrow> string" where
  "fromWei n v =
     (let p = replicate (Suc n - length v) CHR ''0'' @ v;
          whole = take (length p - n) p;
          fraction = rev (dropWhile (\<lambda>c. c = CHR ''0'') (rev (drop (length p - n) p)))
      in whole @ (if fraction = [] then [] else CHR ''.'' # fraction))"

section \<open>The transaction repository\<close>

text \<open>
  Modelled from the spec: the transaction repository (\<open>txRep\<close>, not part of the sources
  at hand) offers \<open>findByHash(hash) \<rightarrow> Transaction|null\<close> and \<open>save(transaction)\<close>,
  "a single upsert keyed by hash". The store is the list of stored records.
\<close>

definition getByHash :: "Store \<Rightarrow> string \<Rightarrow> Transaction option" where
  "getByHash s h = List.find (\<lambda>tx. transactionHash tx = h) s"

fun save :: "Transaction \<Rightarrow> Store \<Rightarrow> Store" where
  "save tx [] = [tx]"
| "save tx (x # xs) =
     (if transactionHash x = transactionHash tx then tx # xs else x # save tx xs)"

text \<open>
  Modelled from the spec: \<open>Transaction.createTransaction\<close> (the entity is not part of the
  sources at hand), called with a hash and details only: a record with these two fields
  and every other field unset.
\<close>

definition createTransaction :: "string \<Rightarrow> TxDetails \<Rightarrow> Transaction" where
  "createTransaction h d =
     \<lparr> transactionHash = h, details = d, status = None, tx_type = None, tx_from = None,
       tx_to = None, amount = None, contractAddress = None, blockNumber = None,
       timestamp = None \<rparr>"

section \<open>Receipt status\<close>

definition getTxStatusByReceipt :: "Receipt option \<Rightarrow> TxStatus" where
  "getTxStatusByReceipt receipt =
     (case receipt of
        None \<Rightarrow> TRANSACTION_STATUS_PENDING
      | Some r \<Rightarrow>
          if r_status r = ''0x1'' then TRANSACTION_STATUS_CONFIRMED
          else TRANSACTION_STATUS_FAILED)"

section \<open>Wallet index\<close>

text \<open>
  \<open>getWalletMapInTransactions\<close>: the truthy \<open>from\<close> and \<open>to\<close> of the transactions are the
  keys of \<open>txMaps\<close>; the wallets of the users found for these keys are kept when their
  address is such a key, and grouped by address.
\<close>

fun keysInOrder :: "string list \<Rightarrow> string list \<Rightarrow> string list" where
  "keysInOrder seen [] = []"
| "keysInOrder seen (k # ks) =
     (if k \<in> set seen then keysInOrder seen ks else k # keysInOrder (k # seen) ks)"

definition txMaps :: "ExtEthTransaction list \<Rightarrow> string list" where
  "txMaps transactions =
     keysInOrder []
       (map js_key (filter truthy_opt (map (\<lambda>t. Some (t_from t)) transactions @ map t_to transactions)))"

fun pushWallet :: "Wallet \<Rightarrow> WalletsMap \<Rightarrow> WalletsMap" where
  "pushWallet w [] = [(w_address w, [w])]"
| "pushWallet w ((k, ws) # m) =
     (if k = w_address w then (k, ws @ [w]) # m else (k, ws) # pushWallet w m)"

definition getWalletMapInTransactions :: "Deps \<Rightarrow> ExtEthTransaction list \<Rightarrow> WalletsMap" where
  "getWalletMapInTransactions env transactions =
     (let keys = txMaps transactions
      in foldl (\<lambda>walletIds w. pushWallet w walletIds) []
           (filter (\<lambda>w. w_address w \<in> set keys)
              (concat (map u_wallets (getAllByWalletAddresses env keys)))))"

text \<open>\<open>walletsMap[k]\<close> is an array when the key is there (an array is truthy, also when
  empty) and undefined otherwise. The keys looked up are addresses or \<open>null\<close>, never the
  name of a property that every object inherits.\<close>

definition hasKey :: "WalletsMap \<Rightarrow> string \<Rightarrow> bool" where
  "hasKey m k = (map_of m k \<noteq> None)"

definition filterTransactionByWalletAddresses ::
  "WalletsMap \<Rightarrow> ExtEthTransaction list \<Rightarrow> ExtEthTransaction list" where
  "filterTransactionByWalletAddresses walletsMap transactions =
     filter (\<lambda>t. hasKey walletsMap (t_from t) \<or> hasKey walletsMap (js_key (t_to t))) transactions"

section \<open>Blocks\<close>

text \<open>
  The first step of \<open>processTransactionsInBlock\<close>: a transaction whose input has the
  length of a \<open>transfer\<close> call (or of a call with three arguments) and starts with the
  \<open>transfer\<close> signature is rewritten from the decoded arguments, and the address it was
  sent to becomes its \<open>contractAddress\<close>. Both branches compare with
  \<open>erc20Abi.transfer.methodSignature\<close>, as the source does.
\<close>

definition extendTransaction :: "Deps \<Rightarrow> EthTransaction \<Rightarrow> ExtEthTransaction" where
  "extendTransaction env t =
     (if length (t_input t) = 2 + 8 + 64 + 64
         \<and> slice 2 10 (t_input t) = transfer_methodSignature env
      then
        (let methodArgs = decodeTransferArgs env (drop 10 (t_input t))
         in \<lparr> t_hash = t_hash t, t_from = t_from t, t_to = Some (fst methodArgs),
              t_value = snd methodArgs, t_input = t_input t, t_gas = t_gas t,
              t_gasPrice = t_gasPrice t, t_contractAddress = t_to t \<rparr>)
      else if length (t_input t) = 2 + 8 + 64 + 64 + 64
         \<and> slice 2 10 (t_input t) = transfer_methodSignature env
      then
        (let methodArgs = decodeTransferFromArgs env (drop 10 (t_input t))
         in \<lparr> t_hash = t_hash t, t_from = fst methodArgs, t_to = Some (fst (snd methodArgs)),
              t_value = snd (snd methodArgs), t_input = t_input t, t_gas = t_gas t,
              t_gasPrice = t_gasPrice t, t_contractAddress = t_to t \<rparr>)
      else
        \<lparr> t_hash = t_hash t, t_from = t_from t, t_to = t_to t, t_value = t_value t,
          t_input = t_input t, t_gas = t_gas t, t_gasPrice = t_gasPrice t,
          t_contractAddress = None \<rparr>)"

section \<open>New transactions\<close>

definition processNotRegisteredEthereumTransaction ::
  "Transaction \<Rightarrow> ExtEthTransaction \<Rightarrow> Transaction" where
  "processNotRegisteredEthereumTransaction tx ethTx =
     tx\<lparr> tx_type := Some ETHEREUM_TRANSFER, contractAddress := None,
         tx_from := Some (t_from ethTx), tx_to := t_to ethTx,
         amount := Some (fromWei 18 (t_value ethTx)) \<rparr>"

text \<open>
  The source changes \<open>tx\<close> in place and returns a boolean; the model returns both. The
  two tests of the signature are the same test, as in the source.
\<close>

definition processNotRegisteredContractTransaction ::
  "Deps \<Rightarrow> Transaction \<Rightarrow> ExtEthTransaction \<Rightarrow> bool \<times> Transaction" where
  "processNotRegisteredContractTransaction env tx ethTx =
     (let methodSignature = slice 2 10 (t_input ethTx)
      in if methodSignature = transfer_methodSignature env then
           (True, tx\<lparr> tx_from := Some (t_from ethTx), tx_to := t_to ethTx,
                     amount := Some (t_value ethTx), tx_type := Some ERC20_TRANSFER,
                     contractAddress := t_contractAddress ethTx \<rparr>)
         else if methodSignature = transfer_methodSignature env then
           (True, tx\<lparr> tx_from := Some (t_from ethTx), tx_to := t_to ethTx,
                     amount := Some (t_value ethTx), tx_type := Some ERC20_TRANSFER,
                     contractAddress := t_contractAddress ethTx \<rparr>)
         else (False, tx))"

section \<open>Reconciliation of one transaction\<close>

text \<open>
  \<open>processTransaction\<close> up to the request of the receipt: the record to work on, or
  \<open>None\<close> where the source returns. An unknown hash gives a new record, classified as an
  ether transfer or by the contract method; a stored record is taken only while pending.
\<close>

definition selectTransaction :: "Deps \<Rightarrow> ExtEthTransaction \<Rightarrow> Store \<Rightarrow> Transaction option" where
  "selectTransaction env ethTx store =
     (case getByHash store (t_hash ethTx) of
        None \<Rightarrow>
          (let tx = createTransaction (t_hash ethTx)
                      \<lparr> d_gas = t_gas ethTx, d_gasPrice = fromWei 9 (t_gasPrice ethTx) \<rparr>
           in if truthy (t_value ethTx) \<and> t_input ethTx = ''0x'' then
                Some (processNotRegisteredEthereumTransaction tx ethTx)
              else
                (case processNotRegisteredContractTransaction env tx ethTx of
                   (True, tx') \<Rightarrow> Some tx'
                 | (False, _) \<Rightarrow> None))
      | Some tx \<Rightarrow>
          if status tx \<noteq> Some TRANSACTION_STATUS_PENDING then None else Some tx)"

text \<open>
  The \<open>forEach\<close> over the logs of the receipt: every log is decoded, and a decoding with
  non-empty \<open>_from\<close> and \<open>_to\<close> sets the status to confirmed. A log on which \<open>decodeLog\<close>
  throws ends the loop and the call.
\<close>

fun forEachLog :: "Deps \<Rightarrow> Transaction \<Rightarrow> Log list \<Rightarrow> Transaction outcome" where
  "forEachLog env tx [] = Returns tx"
| "forEachLog env tx (log # logs) =
     (case decodeLog env log of
        Throws \<Rightarrow> Throws
      | Returns decodedLogs \<Rightarrow>
          forEachLog env
            (if (case decodedLogs of
                   None \<Rightarrow> False
                 | Some d \<Rightarrow> truthy_opt (d_from d) \<and> truthy_opt (d_to d))
             then tx\<lparr> status := Some TRANSACTION_STATUS_CONFIRMED \<rparr> else tx)
            logs)"

text \<open>
  \<open>processTransaction\<close> from the receipt on: the status of the receipt, the check of
  the Transfer event for a token transfer, then timestamp and block number.
\<close>

definition applyReceipt ::
  "Deps \<Rightarrow> Transaction \<Rightarrow> Receipt \<Rightarrow> Block \<Rightarrow> Transaction outcome" where
  "applyReceipt env tx transactionReceipt blockData =
     (let tx1 = tx\<lparr> status := Some (getTxStatusByReceipt (Some transactionReceipt)) \<rparr>;
          checked =
            (if status tx1 \<noteq> Some TRANSACTION_STATUS_FAILED \<and> tx_type tx1 = Some ERC20_TRANSFER
             then
               (if r_logs transactionReceipt = [] then
                  Returns (tx1\<lparr> status := Some TRANSACTION_STATUS_FAILED \<rparr>)
                else
                  forEachLog env (tx1\<lparr> status := Some TRANSACTION_STATUS_FAILED \<rparr>)
                    (r_logs transactionReceipt))
             else Returns tx1)
      in case checked of
           Throws \<Rightarrow> Throws
         | Returns tx2 \<Rightarrow>
             Returns (tx2\<lparr> timestamp := Some (b_timestamp blockData),
                            blockNumber := Some (b_number blockData) \<rparr>))"

text \<open>
  \<open>processTransaction\<close>. It is called with the block at hand, so \<open>blockData\<close> is never
  missing; the argument \<open>walletsMap\<close>, which the source does not read, is left out. The
  call returns the store as it is then, or throws and leaves the store as it was.
\<close>

definition processTransaction ::
  "Deps \<Rightarrow> ExtEthTransaction \<Rightarrow> Block \<Rightarrow> Store \<Rightarrow> Store outcome" where
  "processTransaction env ethTx blockData store =
     (case selectTransaction env ethTx store of
        None \<Rightarrow> Returns store
      | Some tx \<Rightarrow>
          (case getTransactionReceipt env (t_hash ethTx) of
             None \<Rightarrow> Returns store
           | Some transactionReceipt \<Rightarrow>
               (case applyReceipt env tx transactionReceipt blockData of
                  Throws \<Rightarrow> Throws
                | Returns tx' \<Rightarrow> Returns (save tx' store))))"

text \<open>
  Modelled from the spec: \<open>processAsyncItemsByChunks\<close> and \<open>processAsyncIntRangeByChunks\<close>
  (the helpers are not part of the sources at hand) run the unit of work for every item
  of the list, and for every number of the inclusive range; an item that fails does not
  stop the remaining items ("isolated failure policy"). JavaScript is single-threaded and
  the transactions of a block have different hashes, so the items are taken one after
  the other.
\<close>

definition processAsyncItemsByChunks ::
  "'a list \<Rightarrow> ('a \<Rightarrow> Store \<Rightarrow> Store outcome) \<Rightarrow> Store \<Rightarrow> Store" where
  "processAsyncItemsByChunks items f store =
     foldl (\<lambda>s item. case f item s of Throws \<Rightarrow> s | Returns s' \<Rightarrow> s') store items"

definition processAsyncIntRangeByChunks ::
  "int \<Rightarrow> int \<Rightarrow> (int \<Rightarrow> Store \<Rightarrow> Store outcome) \<Rightarrow> Store \<Rightarrow> Store" where
  "processAsyncIntRangeByChunks a b f store = processAsyncItemsByChunks [a..b] f store"

definition processTransactionsInBlock :: "Deps \<Rightarrow> Block \<Rightarrow> Store \<Rightarrow> Store" where
  "processTransactionsInBlock env blockData store =
     (if b_transactions blockData = [] then store
      else
        (let sourceTransactions = map (extendTransaction env) (b_transactions blockData);
             wallets = getWalletMapInTransactions env sourceTransactions
         in if wallets = [] then store
            else
              (let transactions = filterTransactionByWalletAddresses wallets sourceTransactions
               in processAsyncItemsByChunks transactions
                    (\<lambda>transaction. processTransaction env transaction blockData) store)))"

section \<open>The sweep\<close>

text \<open>The state of the watcher: the cursor of the class and the repository.\<close>

record Watcher =
  lastCheckingBlock :: int
  txStore :: Store

text \<open>
  The query for the stored transaction with the greatest block number, read as the
  source reads it: \<open>0\<close> when there is none or when it has no block number.
\<close>

definition maxBlockHeight :: "Store \<Rightarrow> nat" where
  "maxBlockHeight s =
     foldl max 0 (map (\<lambda>tx. case blockNumber tx of None \<Rightarrow> 0 | Some n \<Rightarrow> n) s)"

definition checkTransactions :: "Deps \<Rightarrow> Watcher \<Rightarrow> Watcher" where
  "checkTransactions env w =
     (let last1 =
            (if lastCheckingBlock w = 0
             then max (int (maxBlockHeight (txStore w)) - 4) (startBlock env)
             else lastCheckingBlock w);
          currentBlock = int (getBlockNumber env);
          last2 = (if last1 = 0 then currentBlock - 4 else last1);
          store' =
            processAsyncIntRangeByChunks last2 currentBlock
              (\<lambda>i s. case getBlock env i of
                        None \<Rightarrow> Returns s
                      | Some blockData \<Rightarrow> Returns (processTransactionsInBlock env blockData s))
              (txStore w)
      in \<lparr> lastCheckingBlock = currentBlock - 10, txStore = store' \<rparr>)"

text \<open>Sweeps one after the other, each with the node as it is at that time.\<close>

fun sweeps :: "Deps list \<Rightarrow> Watcher \<Rightarrow> Watcher" where
  "sweeps [] w = w"
| "sweeps (env # envs) w = sweeps envs (checkTransactions env w)"

section \<open>Notions used in the statements\<close>

text \<open>All stored records with a given hash, in the order of the store.\<close>

definition recordsWithHash :: "string \<Rightarrow> Store \<Rightarrow> Transaction list" where
  "recordsWithHash h s = filter (\<lambda>tx. transactionHash tx = h) s"

text \<open>A value of web3 that is a decimal numeral other than zero.\<close>

definition nonZeroValue :: "string \<Rightarrow> bool" where
  "nonZeroValue v =
     (v \<noteq> [] \<and> list_all (\<lambda>c. c \<in> set ''0123456789'') v \<and> list_ex (\<lambda>c. c \<noteq> CHR ''0'') v)"

text \<open>The test of \<open>filterTransactionByWalletAddresses\<close> on one transaction.\<close>

definition touchesWallet :: "WalletsMap \<Rightarrow> ExtEthTransaction \<Rightarrow> bool" where
  "touchesWallet walletsMap t =
     (hasKey walletsMap (t_from t) \<or> hasKey walletsMap (js_key (t_to t)))"

text \<open>The test of one log inside the \<open>forEach\<close>, for a log on which the coder returns.\<close>

definition logConfirms :: "Deps \<Rightarrow> Log \<Rightarrow> bool" where
  "logConfirms env log =
     (case decodeLog env log of
        Throws \<Rightarrow> False
      | Returns decodedLogs \<Rightarrow>
          (case decodedLogs of
             None \<Rightarrow> False
           | Some d \<Rightarrow> truthy_opt (d_from d) \<and> truthy_opt (d_to d)))"

text \<open>
  The receipts on which the check of the Transfer event throws for a record: the check
  is entered (receipt status \<open>0x1\<close>, type \<open>ERC20_TRANSFER\<close>) and \<open>decodeLog\<close> throws on a
  log.
\<close>

definition receiptThrows :: "Deps \<Rightarrow> Transaction \<Rightarrow> Receipt \<Rightarrow> bool" where
  "receiptThrows env tx r =
     (r_status r = ''0x1'' \<and> tx_type tx = Some ERC20_TRANSFER
      \<and> list_ex (\<lambda>log. decodeLog env log = Throws) (r_logs r))"

text \<open>
  What the specification calls a log that decodes to a Transfer event with non-empty
  sender and recipient: the first topic is the signature of
  \<open>Transfer(address,address,uint256)\<close>, the two other topics are the non-empty addresses.
\<close>

definition transferEventTopic :: string where
  "transferEventTopic = ''0xddf252ad1be2c89b69c2b068fc378daa952ba7f163c4a11628f55a4df523b3ef''"

definition isTransferEvent :: "Log \<Rightarrow> bool" where
  "isTransferEvent log =
     (case l_topics log of
        [sig, a, b] \<Rightarrow> sig = transferEventTopic \<and> truthy a \<and> truthy b
      | _ \<Rightarrow> False)"

section \<open>A concrete setting\<close>

text \<open>
  One user with one wallet, a token contract and a sender without wallet. The addresses
  are written with digits only, so that their checksum form is the same string. The
  receipts, the blocks and the head of the chain are arguments of the setting.
\<close>

definition exWallet :: string where
  "exWallet = ''0x0000000000000000000000000000000000000022''"

definition exSender :: string where
  "exSender = ''0x0000000000000000000000000000000000000011''"

definition exToken :: string where
  "exToken = ''0x0000000000000000000000000000000000000033''"

definition exUsers :: "User list" where
  "exUsers = [\<lparr> u_email = ''user@example.org'',
               u_wallets = [\<lparr> w_address = exWallet, w_ticker = ''ETH'' \<rparr>] \<rparr>]"

text \<open>
  The ABI coder on the payload of a call: an address is the last 40 digits of its word,
  a \<open>uint256\<close> is the decimal numeral of its word.
\<close>

definition hexValue :: "char \<Rightarrow> nat" where
  "hexValue c =
     (case map_of
        [(CHR ''0'', 0), (CHR ''1'', 1), (CHR ''2'', 2), (CHR ''3'', 3), (CHR ''4'', 4),
         (CHR ''5'', 5), (CHR ''6'', 6), (CHR ''7'', 7), (CHR ''8'', 8), (CHR ''9'', 9),
         (CHR ''a'', 10), (CHR ''b'', 11), (CHR ''c'', 12), (CHR ''d'', 13), (CHR ''e'', 14),
         (CHR ''f'', 15), (CHR ''A'', 10), (CHR ''B'', 11), (CHR ''C'', 12), (CHR ''D'', 13),
         (CHR ''E'', 14), (CHR ''F'', 15)] c of
        None \<Rightarrow> 0
      | Some n \<Rightarrow> n)"

definition natOfHex :: "string \<Rightarrow> nat" where
  "natOfHex s = foldl (\<lambda>n c. 16 * n + hexValue c) 0 s"

function decimalOfNat :: "nat \<Rightarrow> string" where
  "decimalOfNat n =
     (if n < 10 then [''0123456789'' ! n]
      else decimalOfNat (n div 10) @ [''0123456789'' ! (n mod 10)])"
  by pat_completeness auto
termination
  by (relation "measure id") auto

declare decimalOfNat.simps [simp del]

definition exDecodeAddress :: "string \<Rightarrow> string" where
  "exDecodeAddress word = ''0x'' @ drop 24 (take 64 word)"

definition exDecodeUint :: "string \<Rightarrow> string" where
  "exDecodeUint word = decimalOfNat (natOfHex (take 64 word))"

text \<open>
  The ABI coder on a log, as the call in \<open>processTransaction\<close> uses it: the call hands
  over all topics of the log, the signature topic included, and the two indexed inputs
  of the Transfer event are read from the first two of them, whatever event the log
  belongs to; a log with fewer than two topics makes the coder throw. The letters of a
  decoded address are left in lower case; the source reads only whether it is empty.
\<close>

definition exDecodeLog :: "Log \<Rightarrow> DecodedLog option outcome" where
  "exDecodeLog log =
     (case l_topics log of
        t0 # t1 # _ \<Rightarrow>
          Returns (Some \<lparr> d_from = Some (exDecodeAddress (drop 2 t0)),
                          d_to = Some (exDecodeAddress (drop 2 t1)) \<rparr>)
      | _ \<Rightarrow> Throws)"

definition exDeps :: "(string \<Rightarrow> Receipt option) \<Rightarrow> (int \<Rightarrow> Block option) \<Rightarrow> nat \<Rightarrow> Deps" where
  "exDeps receipts blocks head =
     \<lparr> transfer_methodSignature = ''a9059cbb'',
       transferFrom_methodSignature = ''77dbbd76'',
       decodeTransferArgs = (\<lambda>s. (exDecodeAddress s, exDecodeUint (drop 64 s))),
       decodeTransferFromArgs =
         (\<lambda>s. (exDecodeAddress s, exDecodeAddress (drop 64 s), exDecodeUint (drop 128 s))),
       decodeLog = exDecodeLog,
       getTransactionReceipt = receipts,
       getBlock = blocks,
       getBlockNumber = head,
       getAllByWalletAddresses =
         (\<lambda>addresses. filter (\<lambda>u. list_ex (\<lambda>w. w_address w \<in> set addresses) (u_wallets u)) exUsers),
       startBlock = 0 \<rparr>"

text \<open>
  Three logs of the token contract: a Transfer of 5 from the sender to the wallet, an
  Approval of 5 given by the wallet to the sender, and an event without indexed input
  (\<open>Burn(uint256)\<close>), whose only topic is its signature.
\<close>

definition exTransferLog :: Log where
  "exTransferLog =
     \<lparr> l_data = ''0x0000000000000000000000000000000000000000000000000000000000000005'',
       l_topics = [''0xddf252ad1be2c89b69c2b068fc378daa952ba7f163c4a11628f55a4df523b3ef'',
                   ''0x0000000000000000000000000000000000000000000000000000000000000011'',
                   ''0x0000000000000000000000000000000000000000000000000000000000000022''] \<rparr>"

definition exApprovalLog :: Log where
  "exApprovalLog =
     \<lparr> l_data = ''0x0000000000000000000000000000000000000000000000000000000000000005'',
       l_topics = [''0x8c5be1e5ebec7d5bd14f71427d1e84f3dd0314c0f7b2291e5b200ac8c7c3b925'',
                   ''0x0000000000000000000000000000000000000000000000000000000000000022'',
                   ''0x0000000000000000000000000000000000000000000000000000000000000011''] \<rparr>"

definition exBurnLog :: Log where
  "exBurnLog =
     \<lparr> l_data = ''0x0000000000000000000000000000000000000000000000000000000000000005'',
       l_topics = [''0xb90306ad06b2a6ff86ddc9327db583062895ef6540e62dc50add009db5b356eb''] \<rparr>"

definition exSuccess :: "Log list \<Rightarrow> string \<Rightarrow> Receipt option" where
  "exSuccess logs h = Some \<lparr> r_status = ''0x1'', r_logs = logs \<rparr>"

definition exRevert :: "string \<Rightarrow> Receipt option" where
  "exRevert h = Some \<lparr> r_status = ''0x0'', r_logs = [] \<rparr>"

definition exNoReceipt :: "string \<Rightarrow> Receipt option" where
  "exNoReceipt h = None"

definition exNoBlocks :: "int \<Rightarrow> Block option" where
  "exNoBlocks i = None"

text \<open>An ether transfer of one coin to the wallet.\<close>

definition exEtherTx :: EthTransaction where
  "exEtherTx =
     \<lparr> t_hash = ''0xA'', t_from = exSender, t_to = Some exWallet,
       t_value = ''1000000000000000000'', t_input = ''0x'', t_gas = 21000,
       t_gasPrice = ''20000000000'' \<rparr>"

text \<open>A call of \<open>transfer(exWallet, 5)\<close> on the token, sent by the address without wallet.\<close>

definition exTransferTx :: EthTransaction where
  "exTransferTx =
     \<lparr> t_hash = ''0xB'', t_from = exSender, t_to = Some exToken, t_value = ''0'',
       t_input = ''0xa9059cbb'' @ ''0000000000000000000000000000000000000000000000000000000000000022''
                   @ ''0000000000000000000000000000000000000000000000000000000000000005'',
       t_gas = 60000, t_gasPrice = ''20000000000'' \<rparr>"

text \<open>The \<open>transfer\<close> signature followed by one argument only, sent by the wallet.\<close>

definition exShortTx :: EthTransaction where
  "exShortTx =
     \<lparr> t_hash = ''0xC'', t_from = exWallet, t_to = Some exToken, t_value = ''0'',
       t_input = ''0xa9059cbb'' @ ''0000000000000000000000000000000000000000000000000000000000000011'',
       t_gas = 60000, t_gasPrice = ''20000000000'' \<rparr>"

text \<open>The \<open>transferFrom\<close> signature followed by three arguments, sent by the wallet.\<close>

definition exTransferFromTx :: EthTransaction where
  "exTransferFromTx =
     \<lparr> t_hash = ''0xD'', t_from = exWallet, t_to = Some exToken, t_value = ''0'',
       t_input = ''0x77dbbd76'' @ ''0000000000000000000000000000000000000000000000000000000000000022''
                   @ ''0000000000000000000000000000000000000000000000000000000000000011''
                   @ ''0000000000000000000000000000000000000000000000000000000000000005'',
       t_gas = 60000, t_gasPrice = ''20000000000'' \<rparr>"

definition exBlock :: "EthTransaction list \<Rightarrow> Block" where
  "exBlock ts = \<lparr> b_number = 100, b_timestamp = 1530000000, b_transactions = ts \<rparr>"

text \<open>Stored records of the ether transfer: still pending, and confirmed in block 90.\<close>

definition exPending :: Transaction where
  "exPending =
     \<lparr> transactionHash = ''0xA'', details = \<lparr> d_gas = 21000, d_gasPrice = ''20'' \<rparr>,
       status = Some TRANSACTION_STATUS_PENDING, tx_type = Some ETHEREUM_TRANSFER,
       tx_from = Some exSender, tx_to = Some exWallet, amount = Some ''1'',
       contractAddress = None, blockNumber = None, timestamp = None \<rparr>"

definition exConfirmed :: Transaction where
  "exConfirmed =
     exPending\<lparr> status := Some TRANSACTION_STATUS_CONFIRMED, blockNumber := Some 90,
                timestamp := Some 1529990000 \<rparr>"

text \<open>An ether transfer between two addresses without wallet.\<close>

definition exOutsideTx :: EthTransaction where
  "exOutsideTx =
     \<lparr> t_hash = ''0xE'', t_from = exSender, t_to = Some exToken, t_value = ''7'',
       t_input = ''0x'', t_gas = 21000, t_gasPrice = ''20000000000'' \<rparr>"

text \<open>A chain whose block 100 holds the ether transfer to the wallet.\<close>

definition exChain :: "int \<Rightarrow> Block option" where
  "exChain i = (if i = 100 then Some (exBlock [exEtherTx]) else None)"

section \<open>The repository and the steps of the reconciliation\<close>

lemma getByHash_hash: "getByHash s h = Some tx \<Longrightarrow> transactionHash tx = h"
  by (induction s) (auto simp: getByHash_def split: if_splits)

lemma getByHash_records:
  "getByHash s h = (case recordsWithHash h s of [] \<Rightarrow> None | x # _ \<Rightarrow> Some x)"
  by (induction s) (auto simp: getByHash_def recordsWithHash_def)

lemma getByHash_save:
  "getByHash (save tx s) h = (if transactionHash tx = h then Some tx else getByHash s h)"
  by (induction s) (auto simp: getByHash_def)

lemma getByHash_cong:
  "recordsWithHash h s' = recordsWithHash h s \<Longrightarrow> getByHash s' h = getByHash s h"
  by (simp add: getByHash_records)

lemma records_save_other:
  "transactionHash tx \<noteq> h \<Longrightarrow> recordsWithHash h (save tx s) = recordsWithHash h s"
  by (induction s) (auto simp: recordsWithHash_def)

lemma save_new: "getByHash s (transactionHash tx) = None \<Longrightarrow> save tx s = s @ [tx]"
  by (induction s) (auto simp: getByHash_def split: if_splits)

lemma selectTransaction_hash:
  "selectTransaction env ethTx s = Some tx \<Longrightarrow> transactionHash tx = t_hash ethTx"
  by (auto simp: selectTransaction_def Let_def createTransaction_def
        processNotRegisteredEthereumTransaction_def processNotRegisteredContractTransaction_def
        dest: getByHash_hash split: option.splits if_splits)

lemma selectTransaction_stored:
  "getByHash s (t_hash ethTx) = Some p \<Longrightarrow>
   selectTransaction env ethTx s =
     (if status p = Some TRANSACTION_STATUS_PENDING then Some p else None)"
  by (simp add: selectTransaction_def)

lemma selectTransaction_terminal:
  "getByHash s (t_hash ethTx) = Some r \<Longrightarrow> status r \<noteq> Some TRANSACTION_STATUS_PENDING \<Longrightarrow>
   selectTransaction env ethTx s = None"
  by (simp add: selectTransaction_def)

lemma forEachLog_eq:
  "forEachLog env (tx\<lparr> status := a \<rparr>) logs =
     (if list_ex (\<lambda>log. decodeLog env log = Throws) logs then Throws
      else Returns (tx\<lparr> status :=
             (if list_ex (logConfirms env) logs then Some TRANSACTION_STATUS_CONFIRMED else a) \<rparr>))"
proof (induction logs arbitrary: a)
  case Nil
  show ?case by simp
next
  case (Cons log logs)
  show ?case
  proof (cases "decodeLog env log")
    case Throws
    then show ?thesis by simp
  next
    case (Returns decodedLogs)
    then have head: "logConfirms env log =
        (case decodedLogs of
           None \<Rightarrow> False
         | Some d \<Rightarrow> truthy_opt (d_from d) \<and> truthy_opt (d_to d))"
      by (simp add: logConfirms_def)
    show ?thesis
    proof (cases "logConfirms env log")
      case True
      with head Returns Cons.IH [of "Some TRANSACTION_STATUS_CONFIRMED"] show ?thesis
        by simp
    next
      case False
      with head Returns Cons.IH [of a] show ?thesis
        by simp
    qed
  qed
qed

lemma applyReceipt_eq:
  "applyReceipt env tx r b =
     (if receiptThrows env tx r then Throws
      else Returns
        (tx\<lparr> status := Some
            (if r_status r = ''0x1'' then
               (if tx_type tx = Some ERC20_TRANSFER then
                  (if list_ex (logConfirms env) (r_logs r)
                   then TRANSACTION_STATUS_CONFIRMED else TRANSACTION_STATUS_FAILED)
                else TRANSACTION_STATUS_CONFIRMED)
             else TRANSACTION_STATUS_FAILED),
         timestamp := Some (b_timestamp b), blockNumber := Some (b_number b) \<rparr>))"
  by (simp add: applyReceipt_def Let_def getTxStatusByReceipt_def forEachLog_eq receiptThrows_def)

lemma applyReceipt_hash:
  "applyReceipt env tx r b = Returns tx' \<Longrightarrow> transactionHash tx' = transactionHash tx"
  by (auto simp: applyReceipt_eq split: if_splits)

lemma applyReceipt_status:
  "applyReceipt env tx r b = Returns tx' \<Longrightarrow>
   status tx' = Some TRANSACTION_STATUS_CONFIRMED \<or> status tx' = Some TRANSACTION_STATUS_FAILED"
  by (auto simp: applyReceipt_eq split: if_splits)

lemma processTransaction_no_receipt:
  "getTransactionReceipt env (t_hash ethTx) = None \<Longrightarrow>
   processTransaction env ethTx b s = Returns s"
  by (simp add: processTransaction_def split: option.split)

lemma processTransaction_receipt:
  "selectTransaction env ethTx s = Some tx \<Longrightarrow>
   getTransactionReceipt env (t_hash ethTx) = Some r \<Longrightarrow>
   processTransaction env ethTx b s =
     (case applyReceipt env tx r b of Throws \<Rightarrow> Throws | Returns tx' \<Rightarrow> Returns (save tx' s))"
  by (simp add: processTransaction_def)

lemma processTransaction_terminal:
  "getByHash s (t_hash ethTx) = Some r \<Longrightarrow> status r \<noteq> Some TRANSACTION_STATUS_PENDING \<Longrightarrow>
   processTransaction env ethTx b s = Returns s"
  by (simp add: processTransaction_def selectTransaction_terminal)

text \<open>The store after one item of \<open>processAsyncItemsByChunks\<close>.\<close>

lemma processTransaction_other:
  assumes that: "t_hash ethTx \<noteq> h"
  shows "recordsWithHash h
     (case processTransaction env ethTx b s of Throws \<Rightarrow> s | Returns s' \<Rightarrow> s')
   = recordsWithHash h s"
proof (cases "selectTransaction env ethTx s")
  case None
  then show ?thesis by (simp add: processTransaction_def)
next
  case (Some tx)
  note sel = this
  show ?thesis
  proof (cases "getTransactionReceipt env (t_hash ethTx)")
    case None
    then show ?thesis by (simp add: processTransaction_no_receipt)
  next
    case (Some r)
    note receipt = this
    show ?thesis
    proof (cases "applyReceipt env tx r b")
      case Throws
      with sel receipt show ?thesis by (simp add: processTransaction_receipt)
    next
      case (Returns tx')
      have "transactionHash tx' = t_hash ethTx"
        using applyReceipt_hash [OF Returns] selectTransaction_hash [OF sel] by simp
      with that have "recordsWithHash h (save tx' s) = recordsWithHash h s"
        by (simp add: records_save_other)
      with sel receipt Returns show ?thesis by (simp add: processTransaction_receipt)
    qed
  qed
qed

lemma processTransaction_keeps_terminal:
  assumes "getByHash s h = Some r" and "status r \<noteq> Some TRANSACTION_STATUS_PENDING"
  shows "recordsWithHash h
           (case processTransaction env ethTx b s of Throws \<Rightarrow> s | Returns s' \<Rightarrow> s')
         = recordsWithHash h s"
proof (cases "t_hash ethTx = h")
  case True
  with assms show ?thesis by (simp add: processTransaction_terminal)
next
  case False
  then show ?thesis by (rule processTransaction_other)
qed

lemma items_other:
  "list_all (\<lambda>t. t_hash t \<noteq> h) ts \<Longrightarrow>
   recordsWithHash h (processAsyncItemsByChunks ts (\<lambda>t. processTransaction env t b) s)
   = recordsWithHash h s"
proof (induction ts arbitrary: s)
  case Nil
  then show ?case by (simp add: processAsyncItemsByChunks_def)
next
  case (Cons t ts)
  let ?s1 = "case processTransaction env t b s of Throws \<Rightarrow> s | Returns s' \<Rightarrow> s'"
  from Cons.prems have "t_hash t \<noteq> h" and rest: "list_all (\<lambda>t. t_hash t \<noteq> h) ts"
    by simp_all
  then have "recordsWithHash h ?s1 = recordsWithHash h s"
    by (simp add: processTransaction_other)
  with Cons.IH [OF rest, of ?s1] show ?case
    by (simp add: processAsyncItemsByChunks_def)
qed

lemma items_keep_terminal:
  assumes "getByHash s h = Some r" and "status r \<noteq> Some TRANSACTION_STATUS_PENDING"
  shows "recordsWithHash h
           (processAsyncItemsByChunks ts (\<lambda>t. processTransaction env t b) s) =
         recordsWithHash h s"
  using assms
proof (induction ts arbitrary: s)
  case Nil
  then show ?case by (simp add: processAsyncItemsByChunks_def)
next
  case (Cons t ts)
  let ?s1 = "case processTransaction env t b s of Throws \<Rightarrow> s | Returns s' \<Rightarrow> s'"
  have keep: "recordsWithHash h ?s1 = recordsWithHash h s"
    using Cons.prems by (rule processTransaction_keeps_terminal)
  then have "getByHash ?s1 h = Some r"
    using Cons.prems(1) getByHash_cong [OF keep] by simp
  from Cons.IH [OF this Cons.prems(2)] keep show ?case
    by (simp add: processAsyncItemsByChunks_def)
qed

lemma block_keeps_terminal:
  assumes "getByHash s h = Some r" and "status r \<noteq> Some TRANSACTION_STATUS_PENDING"
  shows "recordsWithHash h (processTransactionsInBlock env b s) = recordsWithHash h s"
  using items_keep_terminal [OF assms]
  by (simp add: processTransactionsInBlock_def Let_def)

lemma range_keeps_terminal:
  assumes "getByHash s h = Some r" and "status r \<noteq> Some TRANSACTION_STATUS_PENDING"
  shows "recordsWithHash h
           (processAsyncItemsByChunks is
              (\<lambda>i s. case getBlock env i of None \<Rightarrow> Returns s
                     | Some blockData \<Rightarrow> Returns (processTransactionsInBlock env blockData s)) s) =
         recordsWithHash h s"
  using assms
proof (induction "is" arbitrary: s)
  case Nil
  then show ?case by (simp add: processAsyncItemsByChunks_def)
next
  case (Cons i "is")
  let ?s1 = "case getBlock env i of None \<Rightarrow> s
             | Some blockData \<Rightarrow> processTransactionsInBlock env blockData s"
  have keep: "recordsWithHash h ?s1 = recordsWithHash h s"
    using Cons.prems by (simp add: block_keeps_terminal split: option.split)
  then have found: "getByHash ?s1 h = Some r"
    using Cons.prems(1) getByHash_cong [OF keep] by simp
  have step: "(case (case getBlock env i of None \<Rightarrow> Returns s
                     | Some blockData \<Rightarrow> Returns (processTransactionsInBlock env blockData s)) of
                 Throws \<Rightarrow> s | Returns s' \<Rightarrow> s') = ?s1"
    by (simp split: option.split)
  from Cons.IH [OF found Cons.prems(2)] keep show ?case
    by (simp add: processAsyncItemsByChunks_def step)
qed

lemma sweep_keeps_terminal:
  assumes "getByHash (txStore w) h = Some r" and "status r \<noteq> Some TRANSACTION_STATUS_PENDING"
  shows "recordsWithHash h (txStore (checkTransactions env w)) = recordsWithHash h (txStore w)"
  using range_keeps_terminal [OF assms]
  by (simp add: checkTransactions_def Let_def processAsyncIntRangeByChunks_def)

lemma sweeps_keep_terminal:
  assumes "getByHash (txStore w) h = Some r" and "status r \<noteq> Some TRANSACTION_STATUS_PENDING"
  shows "recordsWithHash h (txStore (sweeps envs w)) = recordsWithHash h (txStore w)"
  using assms
proof (induction envs arbitrary: w)
  case Nil
  then show ?case by simp
next
  case (Cons env envs)
  have keep: "recordsWithHash h (txStore (checkTransactions env w)) = recordsWithHash h (txStore w)"
    using Cons.prems by (rule sweep_keeps_terminal)
  then have "getByHash (txStore (checkTransactions env w)) h = Some r"
    using Cons.prems(1) getByHash_cong [OF keep] by simp
  from Cons.IH [OF this Cons.prems(2)] keep show ?case by simp
qed

lemma extendTransaction_hash: "t_hash (extendTransaction env t) = t_hash t"
  by (simp add: extendTransaction_def Let_def)

lemma extendTransaction_plain:
  "t_input t = ''0x'' \<Longrightarrow>
   extendTransaction env t =
     \<lparr> t_hash = t_hash t, t_from = t_from t, t_to = t_to t, t_value = t_value t,
       t_input = t_input t, t_gas = t_gas t, t_gasPrice = t_gasPrice t,
       t_contractAddress = None \<rparr>"
  by (simp add: extendTransaction_def)

lemma filterTransactionByWalletAddresses_touches:
  "filterTransactionByWalletAddresses walletsMap ts = filter (touchesWallet walletsMap) ts"
  unfolding filterTransactionByWalletAddresses_def
  by (rule filter_cong) (simp_all add: touchesWallet_def)

lemma nonZeroValue_truthy: "nonZeroValue v \<Longrightarrow> truthy v"
  by (simp add: nonZeroValue_def truthy_def)

section \<open>Evaluation of the concrete setting\<close>

lemmas ex_defs = exDeps_def exSuccess_def exRevert_def exNoReceipt_def exNoBlocks_def
  exEtherTx_def exTransferTx_def exShortTx_def exTransferFromTx_def exBlock_def
  exPending_def exConfirmed_def exWallet_def exSender_def exToken_def exUsers_def
  exDecodeLog_def exDecodeAddress_def exDecodeUint_def natOfHex_def hexValue_def
  decimalOfNat.simps exTransferLog_def exApprovalLog_def exBurnLog_def exOutsideTx_def
  exChain_def

lemmas run_defs = processTransaction_def selectTransaction_def applyReceipt_def
  getTxStatusByReceipt_def getByHash_def createTransaction_def extendTransaction_def
  processNotRegisteredEthereumTransaction_def processNotRegisteredContractTransaction_def
  fromWei_def slice_def truthy_def truthy_opt_def js_key_def Let_def

lemmas block_defs = processTransactionsInBlock_def processAsyncItemsByChunks_def
  getWalletMapInTransactions_def txMaps_def filterTransactionByWalletAddresses_def hasKey_def

section \<open>Terminal records\<close>

text \<open>
  Claim C2. A stored record whose status is confirmed or failed is never worked on
  again: \<open>processTransaction\<close> for its hash returns before the receipt is requested and
  leaves the whole store as it is; a block and any sequence of sweeps leave the records
  with that hash as they are, so the record keeps all its fields and no second record
  with the hash appears. A stored record is selected exactly when it is pending.
\<close>

theorem terminal_record_is_never_reprocessed:
  assumes stored: "getByHash s h = Some r"
    and terminal: "status r = Some TRANSACTION_STATUS_CONFIRMED
                   \<or> status r = Some TRANSACTION_STATUS_FAILED"
  shows "(t_hash ethTx = h \<longrightarrow>
            selectTransaction env ethTx s = None
            \<and> processTransaction env ethTx b s = Returns s)
       \<and> recordsWithHash h (processTransactionsInBlock env b s) = recordsWithHash h s
       \<and> recordsWithHash h (txStore (sweeps envs \<lparr> lastCheckingBlock = c, txStore = s \<rparr>))
           = recordsWithHash h s
       \<and> getByHash (txStore (sweeps envs \<lparr> lastCheckingBlock = c, txStore = s \<rparr>)) h = Some r
       \<and> (getByHash s (t_hash ethTx) = Some p \<longrightarrow>
            (selectTransaction env ethTx s \<noteq> None) = (status p = Some TRANSACTION_STATUS_PENDING))"
proof -
  from terminal have np: "status r \<noteq> Some TRANSACTION_STATUS_PENDING" by auto
  have one: "t_hash ethTx = h \<longrightarrow>
      selectTransaction env ethTx s = None \<and> processTransaction env ethTx b s = Returns s"
    using stored np by (auto simp: selectTransaction_terminal processTransaction_terminal)
  have block: "recordsWithHash h (processTransactionsInBlock env b s) = recordsWithHash h s"
    using stored np by (rule block_keeps_terminal)
  have all: "recordsWithHash h (txStore (sweeps envs \<lparr> lastCheckingBlock = c, txStore = s \<rparr>))
      = recordsWithHash h s"
    using sweeps_keep_terminal [of "\<lparr> lastCheckingBlock = c, txStore = s \<rparr>" h r envs] stored np
    by simp
  have found: "getByHash (txStore (sweeps envs \<lparr> lastCheckingBlock = c, txStore = s \<rparr>)) h = Some r"
    using getByHash_cong [OF all] stored by simp
  have pending: "getByHash s (t_hash ethTx) = Some p \<longrightarrow>
      (selectTransaction env ethTx s \<noteq> None) = (status p = Some TRANSACTION_STATUS_PENDING)"
    by (simp add: selectTransaction_stored)
  from one block all found pending show ?thesis by blast
qed

theorem terminal_record_is_never_reprocessed_witness:
  "getByHash [exConfirmed] ''0xA'' = Some exConfirmed
   \<and> status exConfirmed = Some TRANSACTION_STATUS_CONFIRMED
   \<and> t_hash (extendTransaction (exDeps (exSuccess []) exChain 100) exEtherTx) = ''0xA''
   \<and> selectTransaction (exDeps (exSuccess []) exChain 100)
        (extendTransaction (exDeps (exSuccess []) exChain 100) exEtherTx) [exConfirmed] = None
   \<and> processTransaction (exDeps (exSuccess []) exChain 100)
        (extendTransaction (exDeps (exSuccess []) exChain 100) exEtherTx)
        (exBlock [exEtherTx]) [exConfirmed] = Returns [exConfirmed]
   \<and> recordsWithHash ''0xA''
        (txStore (sweeps [exDeps (exSuccess []) exChain 100, exDeps (exSuccess []) exChain 101]
           \<lparr> lastCheckingBlock = 96, txStore = [exConfirmed] \<rparr>)) = [exConfirmed]"
proof -
  let ?env = "exDeps (exSuccess []) exChain 100"
  have stored: "getByHash [exConfirmed] ''0xA'' = Some exConfirmed"
    by (simp add: getByHash_def exConfirmed_def exPending_def)
  have st: "status exConfirmed = Some TRANSACTION_STATUS_CONFIRMED"
    by (simp add: exConfirmed_def)
  then have terminal: "status exConfirmed = Some TRANSACTION_STATUS_CONFIRMED
      \<or> status exConfirmed = Some TRANSACTION_STATUS_FAILED"
    by simp
  have hash: "t_hash (extendTransaction ?env exEtherTx) = ''0xA''"
    by (simp add: extendTransaction_def exEtherTx_def Let_def)
  have recs: "recordsWithHash ''0xA'' [exConfirmed] = [exConfirmed]"
    by (simp add: recordsWithHash_def exConfirmed_def exPending_def)
  from terminal_record_is_never_reprocessed [OF stored terminal,
      of "extendTransaction ?env exEtherTx" ?env "exBlock [exEtherTx]"
         "[?env, exDeps (exSuccess []) exChain 101]" 96]
    stored st hash recs
  show ?thesis by simp
qed

section \<open>The update of a pending record\<close>

text \<open>
  Claim C10. When a stored pending record meets a receipt, the record that is saved is
  the stored one with new \<open>status\<close>, \<open>timestamp\<close> and \<open>blockNumber\<close>; type, sender,
  recipient, amount, contract address, details and hash are those of the stored record.
  The call saves this record, unless the coder throws on a log of the receipt: then
  nothing is saved.
\<close>

theorem pending_update_touches_three_fields:
  assumes stored: "getByHash s (t_hash ethTx) = Some tx"
    and pending: "status tx = Some TRANSACTION_STATUS_PENDING"
    and receipt: "getTransactionReceipt env (t_hash ethTx) = Some r"
  shows "\<exists>tx'. processTransaction env ethTx b s =
                  (if receiptThrows env tx r then Throws else Returns (save tx' s))
           \<and> getByHash (save tx' s) (t_hash ethTx) = Some tx'
           \<and> tx' = tx\<lparr> status := status tx', timestamp := Some (b_timestamp b),
                        blockNumber := Some (b_number b) \<rparr>
           \<and> tx_type tx' = tx_type tx \<and> tx_from tx' = tx_from tx \<and> tx_to tx' = tx_to tx
           \<and> amount tx' = amount tx \<and> contractAddress tx' = contractAddress tx
           \<and> details tx' = details tx \<and> transactionHash tx' = transactionHash tx"
proof -
  let ?tx' = "tx\<lparr> status := Some
            (if r_status r = ''0x1'' then
               (if tx_type tx = Some ERC20_TRANSFER then
                  (if list_ex (logConfirms env) (r_logs r)
                   then TRANSACTION_STATUS_CONFIRMED else TRANSACTION_STATUS_FAILED)
                else TRANSACTION_STATUS_CONFIRMED)
             else TRANSACTION_STATUS_FAILED),
         timestamp := Some (b_timestamp b), blockNumber := Some (b_number b) \<rparr>"
  have sel: "selectTransaction env ethTx s = Some tx"
    using stored pending by (simp add: selectTransaction_stored)
  have run: "processTransaction env ethTx b s =
      (if receiptThrows env tx r then Throws else Returns (save ?tx' s))"
    by (simp add: processTransaction_receipt [OF sel receipt] applyReceipt_eq)
  have key: "transactionHash ?tx' = t_hash ethTx"
    using getByHash_hash [OF stored] by simp
  have found: "getByHash (save ?tx' s) (t_hash ethTx) = Some ?tx'"
    using key by (simp add: getByHash_save)
  have frame: "?tx' = tx\<lparr> status := status ?tx', timestamp := Some (b_timestamp b),
                        blockNumber := Some (b_number b) \<rparr>"
    by simp
  have fields: "tx_type ?tx' = tx_type tx \<and> tx_from ?tx' = tx_from tx \<and> tx_to ?tx' = tx_to tx
           \<and> amount ?tx' = amount tx \<and> contractAddress ?tx' = contractAddress tx
           \<and> details ?tx' = details tx \<and> transactionHash ?tx' = transactionHash tx"
    by simp
  from run found frame fields show ?thesis by blast
qed

theorem pending_update_touches_three_fields_witness:
  "getByHash [exPending] ''0xA'' = Some exPending
   \<and> status exPending = Some TRANSACTION_STATUS_PENDING
   \<and> getTransactionReceipt (exDeps (exSuccess []) exNoBlocks 100) ''0xA''
       = Some \<lparr> r_status = ''0x1'', r_logs = [] \<rparr>
   \<and> processTransaction (exDeps (exSuccess []) exNoBlocks 100)
        (extendTransaction (exDeps (exSuccess []) exNoBlocks 100) exEtherTx)
        (exBlock [exEtherTx]) [exPending]
       = Returns [exPending\<lparr> status := Some TRANSACTION_STATUS_CONFIRMED,
                    timestamp := Some 1530000000, blockNumber := Some 100 \<rparr>]"
proof -
  let ?env = "exDeps (exSuccess []) exNoBlocks 100"
  let ?t = "extendTransaction ?env exEtherTx"
  let ?r = "\<lparr> r_status = ''0x1'', r_logs = [] \<rparr>"
  let ?b = "exBlock [exEtherTx]"
  have h: "t_hash ?t = ''0xA''"
    by (simp add: run_defs ex_defs)
  have stored: "getByHash [exPending] (t_hash ?t) = Some exPending"
    by (simp add: run_defs ex_defs)
  have pending: "status exPending = Some TRANSACTION_STATUS_PENDING"
    by (simp add: exPending_def)
  have receipt: "getTransactionReceipt ?env (t_hash ?t) = Some ?r"
    by (simp add: ex_defs)
  have quiet: "\<not> receiptThrows ?env exPending ?r"
    by (simp add: receiptThrows_def)
  from pending_update_touches_three_fields [OF stored pending receipt, of ?b]
  obtain tx' where
    run: "processTransaction ?env ?t ?b [exPending] =
            (if receiptThrows ?env exPending ?r then Throws else Returns (save tx' [exPending]))"
    and frame: "tx' = exPending\<lparr> status := status tx',
                  timestamp := Some (b_timestamp ?b), blockNumber := Some (b_number ?b) \<rparr>"
    and hash: "transactionHash tx' = transactionHash exPending"
    by blast
  from run quiet hash have saved: "processTransaction ?env ?t ?b [exPending] = Returns [tx']"
    by simp
  have "map status (case processTransaction ?env ?t ?b [exPending] of
                      Throws \<Rightarrow> [] | Returns s' \<Rightarrow> s')
        = [Some TRANSACTION_STATUS_CONFIRMED]"
    by (simp add: run_defs ex_defs)
  with saved have st: "status tx' = Some TRANSACTION_STATUS_CONFIRMED"
    by simp
  have "tx' = exPending\<lparr> status := Some TRANSACTION_STATUS_CONFIRMED,
                timestamp := Some 1530000000, blockNumber := Some 100 \<rparr>"
    using frame unfolding st by (simp add: exBlock_def)
  with saved stored pending receipt show ?thesis
    by (simp add: h)
qed

section \<open>Confirmation of a token transfer\<close>

text \<open>
  Claim C3. The code on two receipts with status \<open>0x1\<close> for the token transfer to the
  wallet, with the coder as the call uses it. A receipt whose only log is an Approval
  event holds no Transfer event, and the record is saved as confirmed: the two indexed
  inputs are read from the signature topic and the topic after it, and no signature is
  compared. A receipt with a Transfer event after an event with one topic makes the
  coder throw: the call ends there and no record is saved.
\<close>

theorem approval_log_confirms_and_short_log_throws:
  "\<not> list_ex isTransferEvent [exApprovalLog]
   \<and> map (\<lambda>tx. (transactionHash tx, tx_type tx, status tx))
        (processTransactionsInBlock (exDeps (exSuccess [exApprovalLog]) exNoBlocks 100)
           (exBlock [exTransferTx]) [])
       = [(''0xB'', Some ERC20_TRANSFER, Some TRANSACTION_STATUS_CONFIRMED)]
   \<and> list_ex isTransferEvent [exBurnLog, exTransferLog]
   \<and> processTransaction (exDeps (exSuccess [exBurnLog, exTransferLog]) exNoBlocks 100)
        (extendTransaction (exDeps (exSuccess [exBurnLog, exTransferLog]) exNoBlocks 100)
           exTransferTx)
        (exBlock [exTransferTx]) [] = Throws
   \<and> processTransactionsInBlock (exDeps (exSuccess [exBurnLog, exTransferLog]) exNoBlocks 100)
        (exBlock [exTransferTx]) [] = []"
  by (simp add: isTransferEvent_def transferEventTopic_def block_defs run_defs ex_defs)

section \<open>The receipt decides the status\<close>



section \<open>First observation\<close>

text \<open>
  Claim C5, as stated: the first observation of a classified transaction stores a pending
  record even when there is no receipt yet. The code returns when the receipt is missing,
  before anything is saved: the ether transfer to the wallet, seen without receipt, leaves
  the empty store empty.
\<close>

theorem first_observation_without_receipt_counterexample:
  "getByHash [] (t_hash exEtherTx) = None
   \<and> map_option tx_type
        (selectTransaction (exDeps exNoReceipt exNoBlocks 100)
           (extendTransaction (exDeps exNoReceipt exNoBlocks 100) exEtherTx) [])
       = Some (Some ETHEREUM_TRANSFER)
   \<and> touchesWallet
        (getWalletMapInTransactions (exDeps exNoReceipt exNoBlocks 100)
           (map (extendTransaction (exDeps exNoReceipt exNoBlocks 100)) [exEtherTx]))
        (extendTransaction (exDeps exNoReceipt exNoBlocks 100) exEtherTx)
   \<and> getTransactionReceipt (exDeps exNoReceipt exNoBlocks 100) (t_hash exEtherTx) = None
   \<and> processTransactionsInBlock (exDeps exNoReceipt exNoBlocks 100) (exBlock [exEtherTx]) [] = []"
  by (simp add: touchesWallet_def block_defs run_defs ex_defs)

text \<open>
  Claim C5, amended. For a hash without stored record: while the receipt is missing
  nothing is stored; with a receipt and a classification, the record that is appended to
  the store has status confirmed or failed, never pending (nothing is appended when the
  coder throws on a log of the receipt). A stored pending record is selected again in
  each pass and the store is left as it is while the receipt is missing.
\<close>

theorem new_record_is_saved_with_its_receipt:
  "(getByHash s (t_hash ethTx) = None \<and> getTransactionReceipt env (t_hash ethTx) = None \<longrightarrow>
      processTransaction env ethTx b s = Returns s)
   \<and> (getByHash s (t_hash ethTx) = None \<and> selectTransaction env ethTx s = Some tx
        \<and> getTransactionReceipt env (t_hash ethTx) = Some r \<longrightarrow>
      (\<exists>tx'. processTransaction env ethTx b s =
                (if receiptThrows env tx r then Throws else Returns (s @ [tx']))
         \<and> transactionHash tx' = t_hash ethTx
         \<and> (status tx' = Some TRANSACTION_STATUS_CONFIRMED
             \<or> status tx' = Some TRANSACTION_STATUS_FAILED)))
   \<and> (getByHash s (t_hash ethTx) = Some p \<and> status p = Some TRANSACTION_STATUS_PENDING \<longrightarrow>
      selectTransaction env ethTx s = Some p
      \<and> (getTransactionReceipt env (t_hash ethTx) = None \<longrightarrow>
           processTransaction env ethTx b s = Returns s))"
proof (intro conjI impI)
  assume "getByHash s (t_hash ethTx) = None \<and> getTransactionReceipt env (t_hash ethTx) = None"
  then show "processTransaction env ethTx b s = Returns s"
    by (simp add: processTransaction_no_receipt)
next
  assume a: "getByHash s (t_hash ethTx) = None \<and> selectTransaction env ethTx s = Some tx
        \<and> getTransactionReceipt env (t_hash ethTx) = Some r"
  let ?tx' = "tx\<lparr> status := Some
            (if r_status r = ''0x1'' then
               (if tx_type tx = Some ERC20_TRANSFER then
                  (if list_ex (logConfirms env) (r_logs r)
                   then TRANSACTION_STATUS_CONFIRMED else TRANSACTION_STATUS_FAILED)
                else TRANSACTION_STATUS_CONFIRMED)
             else TRANSACTION_STATUS_FAILED),
         timestamp := Some (b_timestamp b), blockNumber := Some (b_number b) \<rparr>"
  from a have key: "transactionHash ?tx' = t_hash ethTx"
    using selectTransaction_hash [of env ethTx s tx] by simp
  with a have "save ?tx' s = s @ [?tx']"
    using save_new [of s ?tx'] by simp
  with a have run: "processTransaction env ethTx b s =
                (if receiptThrows env tx r then Throws else Returns (s @ [?tx']))"
    by (simp add: processTransaction_receipt applyReceipt_eq)
  have "status ?tx' = Some TRANSACTION_STATUS_CONFIRMED
             \<or> status ?tx' = Some TRANSACTION_STATUS_FAILED"
    by simp
  with run key show "\<exists>tx'. processTransaction env ethTx b s =
                (if receiptThrows env tx r then Throws else Returns (s @ [tx']))
         \<and> transactionHash tx' = t_hash ethTx
         \<and> (status tx' = Some TRANSACTION_STATUS_CONFIRMED
             \<or> status tx' = Some TRANSACTION_STATUS_FAILED)"
    by blast
next
  assume "getByHash s (t_hash ethTx) = Some p \<and> status p = Some TRANSACTION_STATUS_PENDING"
  then show "selectTransaction env ethTx s = Some p"
    by (simp add: selectTransaction_stored)
next
  assume "getTransactionReceipt env (t_hash ethTx) = None"
  then show "processTransaction env ethTx b s = Returns s"
    by (rule processTransaction_no_receipt)
qed

theorem new_record_is_saved_with_its_receipt_witness:
  "getByHash [] ''0xA'' = None
   \<and> getTransactionReceipt (exDeps exNoReceipt exNoBlocks 100) ''0xA'' = None
   \<and> processTransaction (exDeps exNoReceipt exNoBlocks 100)
        (extendTransaction (exDeps exNoReceipt exNoBlocks 100) exEtherTx) (exBlock [exEtherTx]) []
       = Returns []
   \<and> getTransactionReceipt (exDeps (exSuccess []) exNoBlocks 100) ''0xA''
       = Some \<lparr> r_status = ''0x1'', r_logs = [] \<rparr>
   \<and> map_option status
        (getByHash
           (case processTransaction (exDeps (exSuccess []) exNoBlocks 100)
                   (extendTransaction (exDeps (exSuccess []) exNoBlocks 100) exEtherTx)
                   (exBlock [exEtherTx]) [] of
              Throws \<Rightarrow> [] | Returns s' \<Rightarrow> s') ''0xA'')
       = Some (Some TRANSACTION_STATUS_CONFIRMED)
   \<and> getByHash [exPending] ''0xA'' = Some exPending
   \<and> status exPending = Some TRANSACTION_STATUS_PENDING
   \<and> selectTransaction (exDeps exNoReceipt exNoBlocks 100)
        (extendTransaction (exDeps exNoReceipt exNoBlocks 100) exEtherTx) [exPending]
       = Some exPending
   \<and> processTransaction (exDeps exNoReceipt exNoBlocks 100)
        (extendTransaction (exDeps exNoReceipt exNoBlocks 100) exEtherTx) (exBlock [exEtherTx])
        [exPending] = Returns [exPending]"
proof -
  let ?e0 = "exDeps exNoReceipt exNoBlocks 100"
  let ?e2 = "exDeps (exSuccess []) exNoBlocks 100"
  let ?r2 = "\<lparr> r_status = ''0x1'', r_logs = [] \<rparr>"
  let ?b = "exBlock [exEtherTx]"
  have h: "t_hash (extendTransaction ?e0 exEtherTx) = ''0xA''"
      "t_hash (extendTransaction ?e2 exEtherTx) = ''0xA''"
    by (simp_all add: run_defs ex_defs)
  have none: "getByHash [] (t_hash (extendTransaction ?e0 exEtherTx)) = None"
      "getByHash [] (t_hash (extendTransaction ?e2 exEtherTx)) = None"
    by (simp_all add: getByHash_def)
  have rc0: "getTransactionReceipt ?e0 (t_hash (extendTransaction ?e0 exEtherTx)) = None"
    by (simp add: ex_defs)
  obtain tx where sel: "selectTransaction ?e2 (extendTransaction ?e2 exEtherTx) [] = Some tx"
    and ty: "tx_type tx = Some ETHEREUM_TRANSFER"
    by (simp add: run_defs ex_defs)
  have rc2: "getTransactionReceipt ?e2 (t_hash (extendTransaction ?e2 exEtherTx)) = Some ?r2"
    by (simp add: ex_defs)
  have quiet: "\<not> receiptThrows ?e2 tx ?r2"
    by (simp add: receiptThrows_def)
  have stored: "getByHash [exPending] (t_hash (extendTransaction ?e0 exEtherTx)) = Some exPending"
    by (simp add: run_defs ex_defs)
  have pending: "status exPending = Some TRANSACTION_STATUS_PENDING"
    by (simp add: exPending_def)
  note t0 = new_record_is_saved_with_its_receipt
    [of "[]" "extendTransaction ?e0 exEtherTx" ?e0 ?b,
     THEN conjunct1, THEN mp, OF conjI [OF none(1) rc0]]
  from new_record_is_saved_with_its_receipt
    [of "[]" "extendTransaction ?e2 exEtherTx" ?e2 ?b tx ?r2,
     THEN conjunct2, THEN conjunct1, THEN mp, OF conjI [OF none(2) conjI [OF sel rc2]]]
  obtain tx' where
    run: "processTransaction ?e2 (extendTransaction ?e2 exEtherTx) ?b [] =
            (if receiptThrows ?e2 tx ?r2 then Throws else Returns ([] @ [tx']))"
    and key: "transactionHash tx' = t_hash (extendTransaction ?e2 exEtherTx)"
    and st: "status tx' = Some TRANSACTION_STATUS_CONFIRMED
             \<or> status tx' = Some TRANSACTION_STATUS_FAILED"
    by blast
  have "map status (case processTransaction ?e2 (extendTransaction ?e2 exEtherTx) ?b [] of
                      Throws \<Rightarrow> [] | Returns s' \<Rightarrow> s')
        = [Some TRANSACTION_STATUS_CONFIRMED]"
    by (simp add: run_defs ex_defs)
  with run quiet have "status tx' = Some TRANSACTION_STATUS_CONFIRMED"
    by simp
  with run quiet key have m: "map_option status
        (getByHash
           (case processTransaction ?e2 (extendTransaction ?e2 exEtherTx) ?b [] of
              Throws \<Rightarrow> [] | Returns s' \<Rightarrow> s') ''0xA'')
       = Some (Some TRANSACTION_STATUS_CONFIRMED)"
    by (simp add: getByHash_def h)
  note t2 = new_record_is_saved_with_its_receipt
    [of "[exPending]" "extendTransaction ?e0 exEtherTx" ?e0 ?b _ _ exPending,
     THEN conjunct2, THEN conjunct2, THEN mp, OF conjI [OF stored pending]]
  from none(1) rc0 t0 rc2 m stored pending t2 [THEN conjunct1] t2 [THEN conjunct2, THEN mp, OF rc0]
  show ?thesis
    by (simp only: h simp_thms)
qed

section \<open>Ether transfers\<close>

text \<open>
  Claim C7, as stated: a value of 1000000000000000000 wei is recorded as amount
  \<open>1.0\<close>. The amount is what \<open>fromWei\<close> gives, and \<open>fromWei\<close> writes no fraction of
  zero: the ether transfer of 1000000000000000000 wei to the wallet is classified as an
  ether transfer and stored with the amount \<open>1\<close>.
\<close>

theorem one_ether_amount_counterexample:
  "t_input exEtherTx = ''0x''
   \<and> t_value exEtherTx = ''1000000000000000000''
   \<and> map (\<lambda>tx. (transactionHash tx, tx_type tx, amount tx))
        (processTransactionsInBlock (exDeps (exSuccess []) exNoBlocks 100)
           (exBlock [exEtherTx]) [])
       = [(''0xA'', Some ETHEREUM_TRANSFER, Some ''1'')]
   \<and> map amount
        (processTransactionsInBlock (exDeps (exSuccess []) exNoBlocks 100)
           (exBlock [exEtherTx]) [])
       \<noteq> [Some ''1.0'']"
  by (simp add: block_defs run_defs ex_defs)

text \<open>
  Claim C7, amended. A transaction with input \<open>0x\<close> and a value other than zero, seen for
  the first time, passes the first step unchanged and is classified as
  \<open>ETHEREUM_TRANSFER\<close>: sender and recipient are those of the transaction, the amount is
  the value converted by \<open>fromWei\<close> to ether, there is no contract address; the record
  saved with a receipt has the same fields. \<open>fromWei\<close> writes 1000000000000000000 wei as
  \<open>1\<close>, and 2500000000000000000 wei as \<open>2.5\<close>.
\<close>

theorem ether_transfer_is_classified_native:
  assumes input: "t_input t = ''0x''"
    and "value": "nonZeroValue (t_value t)"
    and new: "getByHash s (t_hash t) = None"
  shows "selectTransaction env (extendTransaction env t) s =
           Some \<lparr> transactionHash = t_hash t,
                  details = \<lparr> d_gas = t_gas t, d_gasPrice = fromWei 9 (t_gasPrice t) \<rparr>,
                  status = None, tx_type = Some ETHEREUM_TRANSFER,
                  tx_from = Some (t_from t), tx_to = t_to t,
                  amount = Some (fromWei 18 (t_value t)), contractAddress = None,
                  blockNumber = None, timestamp = None \<rparr>
       \<and> (getTransactionReceipt env (t_hash t) = Some r \<longrightarrow>
            (\<exists>s'. processTransaction env (extendTransaction env t) b s = Returns s'
               \<and> map_option (\<lambda>tx. (tx_type tx, tx_from tx, tx_to tx, amount tx, contractAddress tx))
                    (getByHash s' (t_hash t))
                  = Some (Some ETHEREUM_TRANSFER, Some (t_from t), t_to t,
                          Some (fromWei 18 (t_value t)), None)))
       \<and> fromWei 18 ''1000000000000000000'' = ''1''
       \<and> fromWei 18 ''2500000000000000000'' = ''2.5''"
proof -
  let ?tx = "\<lparr> transactionHash = t_hash t,
                  details = \<lparr> d_gas = t_gas t, d_gasPrice = fromWei 9 (t_gasPrice t) \<rparr>,
                  status = None, tx_type = Some ETHEREUM_TRANSFER,
                  tx_from = Some (t_from t), tx_to = t_to t,
                  amount = Some (fromWei 18 (t_value t)), contractAddress = None,
                  blockNumber = None, timestamp = None \<rparr>"
  have sel: "selectTransaction env (extendTransaction env t) s = Some ?tx"
    using input new nonZeroValue_truthy [OF "value"]
    by (simp add: extendTransaction_plain selectTransaction_def createTransaction_def
          processNotRegisteredEthereumTransaction_def)
  have h: "t_hash (extendTransaction env t) = t_hash t"
    by (rule extendTransaction_hash)
  have saved: "getTransactionReceipt env (t_hash t) = Some r \<longrightarrow>
      (\<exists>s'. processTransaction env (extendTransaction env t) b s = Returns s'
               \<and> map_option (\<lambda>tx. (tx_type tx, tx_from tx, tx_to tx, amount tx, contractAddress tx))
                    (getByHash s' (t_hash t))
                  = Some (Some ETHEREUM_TRANSFER, Some (t_from t), t_to t,
                          Some (fromWei 18 (t_value t)), None))"
  proof
    assume "getTransactionReceipt env (t_hash t) = Some r"
    then have rc: "getTransactionReceipt env (t_hash (extendTransaction env t)) = Some r"
      by (simp add: h)
    show "\<exists>s'. processTransaction env (extendTransaction env t) b s = Returns s'
               \<and> map_option (\<lambda>tx. (tx_type tx, tx_from tx, tx_to tx, amount tx, contractAddress tx))
                    (getByHash s' (t_hash t))
                  = Some (Some ETHEREUM_TRANSFER, Some (t_from t), t_to t,
                          Some (fromWei 18 (t_value t)), None)"
      by (simp add: processTransaction_receipt [OF sel rc] applyReceipt_eq receiptThrows_def
            getByHash_save)
  qed
  have one: "fromWei 18 ''1000000000000000000'' = ''1''"
    by (simp add: fromWei_def Let_def)
  have two: "fromWei 18 ''2500000000000000000'' = ''2.5''"
    by (simp add: fromWei_def Let_def)
  from sel saved one two show ?thesis by blast
qed

theorem ether_transfer_is_classified_native_witness:
  "t_input exEtherTx = ''0x'' \<and> nonZeroValue (t_value exEtherTx) \<and> getByHash [] ''0xA'' = None
   \<and> map_option (\<lambda>tx. (tx_type tx, tx_from tx, tx_to tx, amount tx, contractAddress tx))
        (selectTransaction (exDeps (exSuccess []) exNoBlocks 100)
           (extendTransaction (exDeps (exSuccess []) exNoBlocks 100) exEtherTx) [])
       = Some (Some ETHEREUM_TRANSFER, Some exSender, Some exWallet, Some ''1'', None)
   \<and> getTransactionReceipt (exDeps (exSuccess []) exNoBlocks 100) ''0xA''
       = Some \<lparr> r_status = ''0x1'', r_logs = [] \<rparr>
   \<and> map_option (\<lambda>tx. (tx_type tx, tx_from tx, tx_to tx, amount tx, contractAddress tx))
        (getByHash
           (case processTransaction (exDeps (exSuccess []) exNoBlocks 100)
                   (extendTransaction (exDeps (exSuccess []) exNoBlocks 100) exEtherTx)
                   (exBlock [exEtherTx]) [] of
              Throws \<Rightarrow> [] | Returns s' \<Rightarrow> s') ''0xA'')
       = Some (Some ETHEREUM_TRANSFER, Some exSender, Some exWallet, Some ''1'', None)"
proof -
  let ?env = "exDeps (exSuccess []) exNoBlocks 100"
  let ?r = "\<lparr> r_status = ''0x1'', r_logs = [] \<rparr>"
  let ?b = "exBlock [exEtherTx]"
  have input: "t_input exEtherTx = ''0x''"
    by (simp add: exEtherTx_def)
  have "value": "nonZeroValue (t_value exEtherTx)"
    by (simp add: nonZeroValue_def exEtherTx_def)
  have new: "getByHash [] (t_hash exEtherTx) = None"
    by (simp add: getByHash_def)
  have h: "t_hash exEtherTx = ''0xA''"
    by (simp add: exEtherTx_def)
  have receipt: "getTransactionReceipt ?env (t_hash exEtherTx) = Some ?r"
    by (simp add: ex_defs)
  have v: "t_value exEtherTx = ''1000000000000000000''"
    by (simp add: exEtherTx_def)
  have ft: "t_from exEtherTx = exSender" "t_to exEtherTx = Some exWallet"
    by (simp_all add: exEtherTx_def)
  note t = ether_transfer_is_classified_native [OF input "value" new, of ?env ?r ?b]
  have amt: "fromWei 18 (t_value exEtherTx) = ''1''"
    using t by (simp add: v)
  from t [THEN conjunct2, THEN conjunct1, THEN mp, OF receipt]
  obtain s' where run: "processTransaction ?env (extendTransaction ?env exEtherTx) ?b [] = Returns s'"
    and saved: "map_option (\<lambda>tx. (tx_type tx, tx_from tx, tx_to tx, amount tx, contractAddress tx))
                  (getByHash s' (t_hash exEtherTx))
                = Some (Some ETHEREUM_TRANSFER, Some (t_from exEtherTx), t_to exEtherTx,
                        Some (fromWei 18 (t_value exEtherTx)), None)"
    by blast
  from t [THEN conjunct1] run saved input "value" new receipt
  show ?thesis
    by (simp add: amt ft h)
qed

section \<open>Transactions outside the wallet index\<close>

text \<open>
  Claim C9, as stated: a raw transaction whose \<open>from\<close> and \<open>to\<close> are both missing from
  the wallet index never gets a record. The index and the filter work on the transactions
  after the first step, where a \<open>transfer\<close> call has the decoded recipient as \<open>to\<close>: a
  token transfer to the wallet, sent by an address without wallet to the token contract,
  is stored although neither raw address is a key of the index.
\<close>

theorem raw_addresses_outside_index_counterexample:
  "\<not> hasKey
       (getWalletMapInTransactions (exDeps (exSuccess [exTransferLog]) exNoBlocks 100)
          (map (extendTransaction (exDeps (exSuccess [exTransferLog]) exNoBlocks 100))
             [exTransferTx]))
       (t_from exTransferTx)
   \<and> \<not> hasKey
       (getWalletMapInTransactions (exDeps (exSuccess [exTransferLog]) exNoBlocks 100)
          (map (extendTransaction (exDeps (exSuccess [exTransferLog]) exNoBlocks 100))
             [exTransferTx]))
       (js_key (t_to exTransferTx))
   \<and> getByHash [] (t_hash exTransferTx) = None
   \<and> map (\<lambda>tx. (transactionHash tx, tx_type tx, tx_to tx, amount tx, contractAddress tx))
        (processTransactionsInBlock (exDeps (exSuccess [exTransferLog]) exNoBlocks 100)
           (exBlock [exTransferTx]) [])
       = [(''0xB'', Some ERC20_TRANSFER, Some exWallet, Some ''5'', Some exToken)]"
  by (simp add: block_defs run_defs ex_defs)

text \<open>
  Claim C9, amended. With \<open>from\<close> and \<open>to\<close> read after the first step of
  \<open>processTransactionsInBlock\<close>: when no transaction of the block with hash \<open>h\<close> has its
  \<open>from\<close> or its \<open>to\<close> among the keys of the index, none of them is passed on, and the
  block leaves the records with hash \<open>h\<close> as they are. The transactions passed on are
  exactly those with \<open>from\<close> or \<open>to\<close> among the keys.
\<close>

theorem transaction_outside_index_creates_no_record:
  assumes index: "walletsMap =
      getWalletMapInTransactions env (map (extendTransaction env) (b_transactions b))"
    and outside: "\<forall>t \<in> set (b_transactions b).
      t_hash t = h \<longrightarrow> \<not> touchesWallet walletsMap (extendTransaction env t)"
  shows "list_all (\<lambda>t. t_hash t \<noteq> h)
           (filterTransactionByWalletAddresses walletsMap
              (map (extendTransaction env) (b_transactions b)))
       \<and> set (filterTransactionByWalletAddresses walletsMap ts)
           = {t \<in> set ts. hasKey walletsMap (t_from t) \<or> hasKey walletsMap (js_key (t_to t))}
       \<and> recordsWithHash h (processTransactionsInBlock env b s) = recordsWithHash h s"
proof -
  let ?ts = "filterTransactionByWalletAddresses walletsMap
               (map (extendTransaction env) (b_transactions b))"
  have passed: "list_all (\<lambda>t. t_hash t \<noteq> h) ?ts"
    using outside
    by (auto simp: filterTransactionByWalletAddresses_touches list_all_iff extendTransaction_hash)
  have keys: "set (filterTransactionByWalletAddresses walletsMap ts)
           = {t \<in> set ts. hasKey walletsMap (t_from t) \<or> hasKey walletsMap (js_key (t_to t))}"
    by (simp add: filterTransactionByWalletAddresses_def)
  have "recordsWithHash h (processTransactionsInBlock env b s) = recordsWithHash h s"
    using items_other [OF passed, of env b s] index
    by (simp add: processTransactionsInBlock_def Let_def)
  with passed keys show ?thesis by blast
qed

theorem transaction_outside_index_creates_no_record_witness:
  "getWalletMapInTransactions (exDeps (exSuccess []) exNoBlocks 100)
     (map (extendTransaction (exDeps (exSuccess []) exNoBlocks 100))
        (b_transactions (exBlock [exEtherTx, exOutsideTx])))
   = [(exWallet, [\<lparr> w_address = exWallet, w_ticker = ''ETH'' \<rparr>])]
   \<and> \<not> touchesWallet [(exWallet, [\<lparr> w_address = exWallet, w_ticker = ''ETH'' \<rparr>])]
         (extendTransaction (exDeps (exSuccess []) exNoBlocks 100) exOutsideTx)
   \<and> recordsWithHash ''0xE''
        (processTransactionsInBlock (exDeps (exSuccess []) exNoBlocks 100)
           (exBlock [exEtherTx, exOutsideTx]) []) = []"
proof -
  let ?env = "exDeps (exSuccess []) exNoBlocks 100"
  let ?b = "exBlock [exEtherTx, exOutsideTx]"
  let ?m = "[(exWallet, [\<lparr> w_address = exWallet, w_ticker = ''ETH'' \<rparr>])]"
  have index: "?m = getWalletMapInTransactions ?env (map (extendTransaction ?env) (b_transactions ?b))"
    by (simp add: block_defs run_defs ex_defs)
  have out: "\<not> touchesWallet ?m (extendTransaction ?env exOutsideTx)"
    by (simp add: touchesWallet_def hasKey_def run_defs ex_defs)
  have outside: "\<forall>t \<in> set (b_transactions ?b).
      t_hash t = ''0xE'' \<longrightarrow> \<not> touchesWallet ?m (extendTransaction ?env t)"
    using out by (simp add: exBlock_def exEtherTx_def)
  from transaction_outside_index_creates_no_record [OF index outside, of _ "[]", THEN conjunct2, THEN conjunct2]
    index [symmetric] out
  show ?thesis
    by (simp add: recordsWithHash_def)
qed

section \<open>The cursor of the sweep\<close>

text \<open>
  Claim C4, as stated: the cursor never decreases. The sweep assigns the head minus 10
  whatever the cursor was: after a sweep that saw head 100 the cursor is 90, and a
  following sweep that sees head 95 sets it to 85.
\<close>

theorem cursor_moves_back_counterexample:
  "lastCheckingBlock
     (checkTransactions (exDeps exNoReceipt exNoBlocks 100)
        \<lparr> lastCheckingBlock = 80, txStore = [] \<rparr>) = 90
   \<and> lastCheckingBlock
       (checkTransactions (exDeps exNoReceipt exNoBlocks 95)
          (checkTransactions (exDeps exNoReceipt exNoBlocks 100)
             \<lparr> lastCheckingBlock = 80, txStore = [] \<rparr>)) = 85"
  by (simp add: checkTransactions_def Let_def exDeps_def)

text \<open>
  Claim C4, amended. After a sweep the cursor is the head seen by the sweep minus 10;
  a following sweep does not lower it when the head it sees is not smaller.
\<close>

theorem cursor_follows_the_head:
  "lastCheckingBlock (checkTransactions env w) = int (getBlockNumber env) - 10
   \<and> (getBlockNumber env \<le> getBlockNumber env' \<longrightarrow>
        lastCheckingBlock (checkTransactions env w)
        \<le> lastCheckingBlock (checkTransactions env' (checkTransactions env w)))"
  by (simp add: checkTransactions_def Let_def)

theorem cursor_follows_the_head_witness:
  "getBlockNumber (exDeps exNoReceipt exNoBlocks 100)
     \<le> getBlockNumber (exDeps exNoReceipt exNoBlocks 103)
   \<and> lastCheckingBlock
        (checkTransactions (exDeps exNoReceipt exNoBlocks 100)
           \<lparr> lastCheckingBlock = 80, txStore = [] \<rparr>) = 90
   \<and> lastCheckingBlock
        (checkTransactions (exDeps exNoReceipt exNoBlocks 100)
           \<lparr> lastCheckingBlock = 80, txStore = [] \<rparr>)
      \<le> lastCheckingBlock
          (checkTransactions (exDeps exNoReceipt exNoBlocks 103)
             (checkTransactions (exDeps exNoReceipt exNoBlocks 100)
                \<lparr> lastCheckingBlock = 80, txStore = [] \<rparr>))"
proof -
  let ?e = "exDeps exNoReceipt exNoBlocks 100"
  let ?e' = "exDeps exNoReceipt exNoBlocks 103"
  let ?w = "\<lparr> lastCheckingBlock = 80, txStore = [] \<rparr>"
  have le: "getBlockNumber ?e \<le> getBlockNumber ?e'"
    by (simp add: exDeps_def)
  have head: "int (getBlockNumber ?e) - 10 = 90"
    by (simp add: exDeps_def)
  note t = cursor_follows_the_head [of ?e ?w ?e']
  from le t [THEN conjunct1] t [THEN conjunct2, THEN mp, OF le] show ?thesis
    by (simp only: head simp_thms)
qed

section \<open>Calls of transferFrom\<close>

text \<open>
  Claim C1. The code at a call whose input starts with the \<open>transferFrom\<close> signature and
  has the length of three arguments, sent by the wallet: both steps compare with the
  \<open>transfer\<close> signature, so the first step leaves the transaction without contract
  address, the classification gives nothing and the block leaves the store empty.
\<close>

theorem transferFrom_call_is_dropped:
  "slice 2 10 (t_input exTransferFromTx)
     = transferFrom_methodSignature (exDeps (exSuccess [exTransferLog]) exNoBlocks 100)
   \<and> length (t_input exTransferFromTx) = 2 + 8 + 64 + 64 + 64
   \<and> touchesWallet
        (getWalletMapInTransactions (exDeps (exSuccess [exTransferLog]) exNoBlocks 100)
           (map (extendTransaction (exDeps (exSuccess [exTransferLog]) exNoBlocks 100))
              [exTransferFromTx]))
        (extendTransaction (exDeps (exSuccess [exTransferLog]) exNoBlocks 100) exTransferFromTx)
   \<and> t_contractAddress
        (extendTransaction (exDeps (exSuccess [exTransferLog]) exNoBlocks 100) exTransferFromTx)
       = None
   \<and> selectTransaction (exDeps (exSuccess [exTransferLog]) exNoBlocks 100)
        (extendTransaction (exDeps (exSuccess [exTransferLog]) exNoBlocks 100) exTransferFromTx) []
       = None
   \<and> processTransactionsInBlock (exDeps (exSuccess [exTransferLog]) exNoBlocks 100)
        (exBlock [exTransferFromTx]) [] = []"
  by (simp add: touchesWallet_def block_defs run_defs ex_defs)

section \<open>Calls of transfer with another length\<close>

text \<open>
  Claim C6. The code at a call whose input starts with the \<open>transfer\<close> signature and
  has one argument only, sent by the wallet: the first step tests the length and leaves
  the transaction as it is, the classification tests the signature alone, and a record of
  type \<open>ERC20_TRANSFER\<close> is stored, without contract address, with the token contract as
  recipient and the ether value as amount.
\<close>

theorem short_transfer_call_is_stored_as_token_transfer:
  "slice 2 10 (t_input exShortTx)
     = transfer_methodSignature (exDeps (exSuccess [exTransferLog]) exNoBlocks 100)
   \<and> length (t_input exShortTx) = 2 + 8 + 64
   \<and> t_to exShortTx = Some exToken
   \<and> map (\<lambda>tx. (transactionHash tx, tx_type tx, status tx, tx_to tx, amount tx, contractAddress tx))
        (processTransactionsInBlock (exDeps (exSuccess [exTransferLog]) exNoBlocks 100)
           (exBlock [exShortTx]) [])
       = [(''0xC'', Some ERC20_TRANSFER, Some TRANSACTION_STATUS_CONFIRMED, Some exToken,
           Some ''0'', None)]"
  by (simp add: block_defs run_defs ex_defs)

end
